theory Spec2Isabelle
  imports Main "HOL-Library.Word"
begin

unbundle bit_operations_syntax

section \<open>Data model (trie.go)\<close>

text \<open>
  Go's \<^verbatim>\<open>[]byte\<close> is a list of 8-bit words, Go's \<^verbatim>\<open>string\<close> a list of
  characters (bytes).  A nil slice and an empty slice are both the empty list: every use
  in the source goes through \<^verbatim>\<open>len\<close>, \<^verbatim>\<open>range\<close> or the encoder, which do
  not tell them apart.
\<close>

type_synonym byte = "8 word"
type_synonym bytes = "byte list"
type_synonym HashBlob = "byte list"

definition ChildIndexCount :: nat where
  "ChildIndexCount = 16"

text \<open>
  \<^verbatim>\<open>nodeExtension{nodeBase{hash}, key, next, value}\<close> and
  \<^verbatim>\<open>nodeBranch{nodeBase{hash}, children}\<close>.  The interface value \<^verbatim>\<open>Node\<close> is
  either of the two; a nil interface is \<open>None\<close>.  A \<^verbatim>\<open>ValueObject\<close> wraps one
  byte slice, so a present value is \<open>Some bytes\<close>.
\<close>

datatype nodeExtension =
    NodeExtension (ext_hash: HashBlob) (ext_key: string)
                  (ext_next: "node option") (ext_value: "bytes option")
and node = Ext nodeExtension | Br nodeBranch
and nodeBranch = NodeBranch (br_hash: HashBlob) (br_children: "nodeExtension option list")

text \<open>
  Errors returned as Go \<^verbatim>\<open>error\<close> values, one constructor per message of the source;
  \<open>Wrap\<close> is \<^verbatim>\<open>errors.Wrap\<close>/\<^verbatim>\<open>errors.Wrapf\<close>.  \<open>ErrDigest\<close> stands for any
  failure the injected digest reports.
\<close>

datatype error =
    ErrKeyLength                  \<comment> \<open>length of key must be positive\<close>
  | ErrKeyExists string           \<comment> \<open>Key '%s' already exists\<close>
  | ErrDeleteKeyNotFound          \<comment> \<open>deleteKey is not found\<close>
  | ErrValueObjectNotFound        \<comment> \<open>ValueObject not found\<close>
  | ErrNotFoundUnderBranch char   \<comment> \<open>ValueObject not found under branch = <%c>\<close>
  | ErrKeyIsEmpty                 \<comment> \<open>key is empty\<close>
  | ErrDuplicateIndex             \<comment> \<open>two children have duplicate index\<close>
  | ErrAppend char                \<comment> \<open>nodeBranch.Append() failed. Child node already exists at '%c'\<close>
  | ErrBranchDelete char          \<comment> \<open>nodeBranch.Delete() failed. Child node does not exist at '%c'\<close>
  | ErrStringLength               \<comment> \<open>length of the string must be positive\<close>
  | ErrNoCommonPrefix             \<comment> \<open>no common prefix\<close>
  | ErrDigest string
  | Wrap error string

text \<open>Panics halt the process: no state is left to observe.\<close>

datatype panic =
    PanicHashEmpty                \<comment> \<open>Hash is empty\<close>
  | PanicEmptyKey                 \<comment> \<open>Cannot set empty key\<close>
  | PanicInvalidChildIndex        \<comment> \<open>Invalid child index\<close>
  | PanicCommonPrefix error       \<comment> \<open>the two \<^verbatim>\<open>panic\<close> calls on a failed commonPrefix\<close>
  | PanicNewNextNil               \<comment> \<open>newNext must not be nil ...\<close>
  | PanicRootHash error           \<comment> \<open>Cannot initialize the root hash. ...\<close>
  | PanicIndexOutOfRange          \<comment> \<open>Go run-time panic of an index expression\<close>

text \<open>The injected \<^verbatim>\<open>crypto.Hash\<close>: \<^verbatim>\<open>Hash([]byte) ([]byte, error)\<close>.\<close>

type_synonym digest = "bytes \<Rightarrow> error + HashBlob"

text \<open>A call that mutates its receiver returns the receiver's new state with the error.\<close>

type_synonym 'a mutated = "panic + ('a \<times> error option)"

section \<open>Key codec\<close>

text \<open>\<^verbatim>\<open>hex.EncodeToString\<close>: two characters of \<^verbatim>\<open>"0123456789abcdef"\<close> per byte.\<close>

definition hextable :: string where
  "hextable = ''0123456789abcdef''"

definition EncodeToString :: "bytes \<Rightarrow> string" where
  "EncodeToString src =
     concat (map (\<lambda>v. [hextable ! unat (drop_bit 4 v), hextable ! unat (v AND 0x0f)]) src)"

text \<open>An index expression \<^verbatim>\<open>s[0]\<close> on a string.\<close>

fun first_char :: "string \<Rightarrow> panic + char" where
  "first_char [] = Inl PanicIndexOutOfRange"
| "first_char (c # _) = Inr c"

fun toChildIndex :: "char \<Rightarrow> panic + nat" where
  "toChildIndex ch =
     (if of_char CHR ''0'' \<le> (of_char ch :: nat) \<and> (of_char ch :: nat) \<le> of_char CHR ''9''
      then Inr (of_char ch - of_char CHR ''0'')
      else if of_char CHR ''a'' \<le> (of_char ch :: nat) \<and> (of_char ch :: nat) \<le> of_char CHR ''f''
      then Inr (of_char ch - of_char CHR ''a'')
      else Inl PanicInvalidChildIndex)"

section \<open>Serialization and hashing (trie.go)\<close>

text \<open>
  The wire format of \<^verbatim>\<open>encoding/gob\<close> for a top-level value of a basic type, as the
  standard library emits it: an unsigned length, then the type id as a signed integer
  (string is type 6, a byte slice is type 5; a signed \<open>n \<ge> 0\<close> is the unsigned \<open>2 n\<close>), a
  zero field delta, the unsigned length of the data and the data.  An unsigned integer
  below 128 is one byte; a larger one is its big-endian bytes after the negated byte count.
\<close>

datatype gob_value = GobString string | GobBytes bytes

function be_bytes :: "nat \<Rightarrow> bytes" where
  "be_bytes n = (if n = 0 then [] else be_bytes (n div 256) @ [of_nat (n mod 256)])"
  by pat_completeness auto
termination
  by (relation "measure id") auto

definition gob_uint :: "nat \<Rightarrow> bytes" where
  "gob_uint n =
     (if n \<le> 127 then [of_nat n]
      else of_nat (256 - length (be_bytes n)) # be_bytes n)"

definition string_bytes :: "string \<Rightarrow> bytes" where
  "string_bytes s = map of_char s"

fun gob_payload :: "gob_value \<Rightarrow> bytes" where
  "gob_payload (GobString s) = gob_uint 12 @ [0] @ gob_uint (length s) @ string_bytes s"
| "gob_payload (GobBytes b) = gob_uint 10 @ [0] @ gob_uint (length b) @ b"

text \<open>\<^verbatim>\<open>encoder.Encode(v)\<close> appends one message to the buffer \<open>w\<close>; on a
  \<^verbatim>\<open>bytes.Buffer\<close> and a basic type it does not fail.\<close>

definition Encode :: "bytes \<Rightarrow> gob_value \<Rightarrow> bytes" where
  "Encode w v = w @ gob_uint (length (gob_payload v)) @ gob_payload v"

text \<open>\<^verbatim>\<open>nodeBase.Hash()\<close> panics on an empty cached hash.\<close>

definition Hash :: "HashBlob \<Rightarrow> panic + HashBlob" where
  "Hash h = (if length h = 0 then Inl PanicHashEmpty else Inr h)"

fun node_Hash :: "node \<Rightarrow> panic + HashBlob" where
  "node_Hash (Ext e) = Hash (ext_hash e)"
| "node_Hash (Br b) = Hash (br_hash b)"

definition ext_Serialize :: "nodeExtension \<Rightarrow> panic + bytes" where
  "ext_Serialize n =
     (let w = Encode [] (GobString ''E'');
          w = Encode w (GobString (ext_key n))
      in case (case ext_next n of
                 Some nx \<Rightarrow>
                   (let w = Encode w (GobString ''C'')
                    in case node_Hash nx of
                         Inl p \<Rightarrow> Inl p
                       | Inr h \<Rightarrow> Inr (Encode w (GobBytes h)))
               | None \<Rightarrow> Inr (Encode w (GobBytes (string_bytes ''NC'')))) of
           Inl p \<Rightarrow> Inl p
         | Inr w \<Rightarrow>
             (case ext_value n of
                Some v \<Rightarrow> Inr (Encode (Encode w (GobString ''V'')) (GobBytes v))
              | None \<Rightarrow> Inr (Encode w (GobString ''NV''))))"

text \<open>The \<^verbatim>\<open>range\<close> loop of \<^verbatim>\<open>nodeBranch.Serialize\<close> over the children.\<close>

fun br_Serialize_loop :: "bytes \<Rightarrow> nodeExtension option list \<Rightarrow> panic + bytes" where
  "br_Serialize_loop w [] = Inr w"
| "br_Serialize_loop w (Some child # cs) =
     (let w = Encode w (GobString ''C'')
      in case Hash (ext_hash child) of
           Inl p \<Rightarrow> Inl p
         | Inr h \<Rightarrow> br_Serialize_loop (Encode w (GobBytes h)) cs)"
| "br_Serialize_loop w (None # cs) = br_Serialize_loop (Encode w (GobString ''NC'')) cs"

definition br_Serialize :: "nodeBranch \<Rightarrow> panic + bytes" where
  "br_Serialize n = br_Serialize_loop (Encode [] (GobString ''B'')) (br_children n)"

definition ext_UpdateHash :: "digest \<Rightarrow> nodeExtension \<Rightarrow> nodeExtension mutated" where
  "ext_UpdateHash hs n =
     (case ext_Serialize n of
        Inl p \<Rightarrow> Inl p
      | Inr s \<Rightarrow>
          (case hs s of
             Inl err \<Rightarrow> Inr (n, Some (Wrap err ''updateHash failed''))
           | Inr res \<Rightarrow>
               Inr (NodeExtension res (ext_key n) (ext_next n) (ext_value n), None)))"

definition br_UpdateHash :: "digest \<Rightarrow> nodeBranch \<Rightarrow> nodeBranch mutated" where
  "br_UpdateHash hs n =
     (case br_Serialize n of
        Inl p \<Rightarrow> Inl p
      | Inr s \<Rightarrow>
          (case hs s of
             Inl err \<Rightarrow> Inr (n, Some (Wrap err ''UpdateHash() failed''))
           | Inr res \<Rightarrow> Inr (NodeBranch res (br_children n), None)))"

section \<open>Constructors and Branch methods (trie.go)\<close>

text \<open>A constructor returns \<^verbatim>\<open>(nil, err)\<close> or \<^verbatim>\<open>(n, nil)\<close>.\<close>

type_synonym 'a created = "panic + (error + 'a)"

definition NewNodeExtension ::
  "string \<Rightarrow> node option \<Rightarrow> bytes option \<Rightarrow> digest \<Rightarrow> nodeExtension created" where
  "NewNodeExtension key nx valueObject hs =
     (case ext_UpdateHash hs (NodeExtension [] key nx valueObject) of
        Inl p \<Rightarrow> Inl p
      | Inr (n, Some err) \<Rightarrow> Inr (Inl err)
      | Inr (n, None) \<Rightarrow> Inr (Inr n))"

definition NewNodeBranch :: nodeBranch where
  "NewNodeBranch = NodeBranch [] (replicate ChildIndexCount None)"

text \<open>An assignment \<^verbatim>\<open>children[i] = n\<close> and a read \<^verbatim>\<open>children[i]\<close> of a slice.\<close>

definition set_child ::
  "nodeExtension option list \<Rightarrow> nat \<Rightarrow> nodeExtension option \<Rightarrow> panic + nodeExtension option list" where
  "set_child cs i n = (if i < length cs then Inr (cs[i := n]) else Inl PanicIndexOutOfRange)"

definition get_child :: "nodeExtension option list \<Rightarrow> nat \<Rightarrow> panic + nodeExtension option" where
  "get_child cs i = (if i < length cs then Inr (cs ! i) else Inl PanicIndexOutOfRange)"

definition NewNodeBranchWithChildren ::
  "nodeExtension \<Rightarrow> nodeExtension \<Rightarrow> digest \<Rightarrow> nodeBranch created" where
  "NewNodeBranchWithChildren a b hs =
     (let children = replicate ChildIndexCount None
      in if length (ext_key a) = 0 \<or> length (ext_key b) = 0 then Inr (Inl ErrKeyIsEmpty)
         else if hd (ext_key a) = hd (ext_key b) then Inr (Inl ErrDuplicateIndex)
         else case toChildIndex (hd (ext_key a)) of
                Inl p \<Rightarrow> Inl p
              | Inr ia \<Rightarrow>
           (case set_child children ia (Some a) of
                Inl p \<Rightarrow> Inl p
              | Inr children \<Rightarrow>
           (case toChildIndex (hd (ext_key b)) of
                Inl p \<Rightarrow> Inl p
              | Inr ib \<Rightarrow>
           (case set_child children ib (Some b) of
                Inl p \<Rightarrow> Inl p
              | Inr children \<Rightarrow>
           (case br_UpdateHash hs (NodeBranch [] children) of
                Inl p \<Rightarrow> Inl p
              | Inr (n, Some err) \<Rightarrow> Inr (Inl err)
              | Inr (n, None) \<Rightarrow> Inr (Inr n))))))"

definition SetKey :: "string \<Rightarrow> nodeExtension \<Rightarrow> panic + nodeExtension" where
  "SetKey key n =
     (if length key = 0 then Inl PanicEmptyKey
      else Inr (NodeExtension (ext_hash n) key (ext_next n) (ext_value n)))"

definition SetNext :: "node option \<Rightarrow> nodeExtension \<Rightarrow> nodeExtension" where
  "SetNext nx n = NodeExtension (ext_hash n) (ext_key n) nx (ext_value n)"

definition SetValueObject :: "bytes option \<Rightarrow> nodeExtension \<Rightarrow> nodeExtension" where
  "SetValueObject v n = NodeExtension (ext_hash n) (ext_key n) (ext_next n) v"

definition HasChildAt :: "nodeBranch \<Rightarrow> char \<Rightarrow> panic + bool" where
  "HasChildAt n c =
     (case toChildIndex c of
        Inl p \<Rightarrow> Inl p
      | Inr i \<Rightarrow> (case get_child (br_children n) i of
                    Inl p \<Rightarrow> Inl p
                  | Inr ch \<Rightarrow> Inr (ch \<noteq> None)))"

definition ChildAt :: "nodeBranch \<Rightarrow> char \<Rightarrow> panic + nodeExtension option" where
  "ChildAt n c =
     (case toChildIndex c of
        Inl p \<Rightarrow> Inl p
      | Inr i \<Rightarrow> get_child (br_children n) i)"

definition Append :: "nodeBranch \<Rightarrow> nodeExtension \<Rightarrow> nodeBranch mutated" where
  "Append node n =
     (case first_char (ext_key n) of
        Inl p \<Rightarrow> Inl p
      | Inr c \<Rightarrow>
     (case toChildIndex c of
        Inl p \<Rightarrow> Inl p
      | Inr index \<Rightarrow>
     (case get_child (br_children node) index of
        Inl p \<Rightarrow> Inl p
      | Inr (Some _) \<Rightarrow> Inr (node, Some (ErrAppend c))
      | Inr None \<Rightarrow>
          Inr (NodeBranch (br_hash node) ((br_children node)[index := Some n]), None))))"

definition br_Delete :: "nodeBranch \<Rightarrow> char \<Rightarrow> nodeBranch mutated" where
  "br_Delete node c =
     (case toChildIndex c of
        Inl p \<Rightarrow> Inl p
      | Inr index \<Rightarrow>
     (case get_child (br_children node) index of
        Inl p \<Rightarrow> Inl p
      | Inr None \<Rightarrow> Inr (node, Some (ErrBranchDelete c))
      | Inr (Some _) \<Rightarrow>
          Inr (NodeBranch (br_hash node) ((br_children node)[index := None]), None)))"

definition Count :: "nodeBranch \<Rightarrow> nat" where
  "Count node = length (filter (\<lambda>child. child \<noteq> None) (br_children node))"

fun First_loop :: "nodeExtension option list \<Rightarrow> nodeExtension option" where
  "First_loop [] = None"
| "First_loop (Some child # cs) = Some child"
| "First_loop (None # cs) = First_loop cs"

definition First :: "nodeBranch \<Rightarrow> nodeExtension option" where
  "First node = First_loop (br_children node)"

section \<open>The trie and its operations\<close>

text \<open>\<^verbatim>\<open>MerklePatriciaTrie{hs, root}\<close>.\<close>

record MerklePatriciaTrie =
  hs :: digest
  root :: nodeBranch

text \<open>
  \<^verbatim>\<open>commonPrefix\<close>: the loop runs \<open>i\<close> from 1 to \<open>minLen\<close> and returns at the first
  position where the strings differ.
\<close>

function commonPrefix_loop :: "string \<Rightarrow> string \<Rightarrow> nat \<Rightarrow> nat \<Rightarrow> string" where
  "commonPrefix_loop a b minLen i =
     (if i < minLen
      then (if a ! i \<noteq> b ! i then take i a else commonPrefix_loop a b minLen (Suc i))
      else take minLen a)"
  by pat_completeness auto
termination
  by (relation "measure (\<lambda>(a, b, minLen, i). minLen - i)") auto

definition commonPrefix :: "string \<Rightarrow> string \<Rightarrow> error + string" where
  "commonPrefix a b =
     (if length a = 0 \<or> length b = 0 then Inl ErrStringLength
      else let minLen = min (length a) (length b)
           in if hd a \<noteq> hd b then Inl ErrNoCommonPrefix
              else Inr (commonPrefix_loop a b minLen 1))"

text \<open>
  Termination of the recursive operations: a child taken out of a Branch, and the
  \<open>next\<close> of an Extension, are smaller than the node.
\<close>

lemma size_nth_child:
  "i < length cs \<Longrightarrow> cs ! i = Some c \<Longrightarrow> size c < Suc (size_list (size_option size) cs)"
proof (induction cs arbitrary: i)
  case Nil
  then show ?case by simp
next
  case (Cons a cs)
  show ?case
  proof (cases i)
    case 0
    with Cons.prems show ?thesis by simp
  next
    case (Suc j)
    with Cons.prems have "size c < Suc (size_list (size_option size) cs)"
      using Cons.IH [of j] by simp
    then show ?thesis by simp
  qed
qed

lemma size_get_child [termination_simp]:
  "get_child cs i = Inr (Some c) \<Longrightarrow> size c < Suc (size_list (size_option size) cs)"
  by (auto simp: get_child_def size_nth_child split: if_splits)

text \<open>
  \<^verbatim>\<open>insertToExtension\<close> and \<^verbatim>\<open>insertToBranch\<close>.  The source mutates nodes in
  place, so after a recursive call the parent's link leads to the child's new state
  (\<open>next'\<close>, \<open>child'\<close>), also when the call returns an error.  In a Branch,
  \<^verbatim>\<open>HasChildAt(c)\<close> and \<^verbatim>\<open>ChildAt(c)\<close> read the one slot \<open>toChildIndex c\<close>, which
  is read once here.
\<close>

fun insertToExtension ::
      "digest \<Rightarrow> string \<Rightarrow> bytes \<Rightarrow> nodeExtension \<Rightarrow> nodeExtension mutated"
  and insertToBranch ::
      "digest \<Rightarrow> string \<Rightarrow> bytes \<Rightarrow> nodeBranch \<Rightarrow> nodeBranch mutated" where
  "insertToExtension mt_hs key valueObject (NodeExtension h k nx v) =
     (let node = NodeExtension h k nx v in
      if key = k then
        (if v \<noteq> None then Inr (node, Some (ErrKeyExists key))
         else ext_UpdateHash mt_hs (SetValueObject (Some valueObject) node))
      else
      case commonPrefix k key of
        Inl err \<Rightarrow> Inl (PanicCommonPrefix err)
      | Inr prefix \<Rightarrow>
      if prefix = k then
        (let keyTail = drop (length prefix) key in
         case nx of
           None \<Rightarrow>
             (case NewNodeExtension keyTail None (Some valueObject) mt_hs of
                Inl p \<Rightarrow> Inl p
              | Inr (Inl err) \<Rightarrow> Inr (node, Some err)
              | Inr (Inr newTailNode) \<Rightarrow>
                  ext_UpdateHash mt_hs (SetNext (Some (Ext newTailNode)) node))
         | Some (Ext next) \<Rightarrow>
             (case first_char keyTail of
                Inl p \<Rightarrow> Inl p
              | Inr c \<Rightarrow>
             (case first_char (ext_key next) of
                Inl p \<Rightarrow> Inl p
              | Inr d \<Rightarrow>
                if c = d then
                  (case insertToExtension mt_hs keyTail valueObject next of
                     Inl p \<Rightarrow> Inl p
                   | Inr (next', Some err) \<Rightarrow> Inr (NodeExtension h k (Some (Ext next')) v, Some err)
                   | Inr (next', None) \<Rightarrow> ext_UpdateHash mt_hs (NodeExtension h k (Some (Ext next')) v))
                else
                  (case NewNodeExtension keyTail None (Some valueObject) mt_hs of
                     Inl p \<Rightarrow> Inl p
                   | Inr (Inl err) \<Rightarrow> Inr (node, Some err)
                   | Inr (Inr newKeyNode) \<Rightarrow>
                  (case NewNodeBranchWithChildren next newKeyNode mt_hs of
                     Inl p \<Rightarrow> Inl p
                   | Inr (Inl err) \<Rightarrow> Inr (node, Some err)
                   | Inr (Inr newBranch) \<Rightarrow>
                       ext_UpdateHash mt_hs (SetNext (Some (Br newBranch)) node)))))
         | Some (Br next) \<Rightarrow>
             (case insertToBranch mt_hs keyTail valueObject next of
                Inl p \<Rightarrow> Inl p
              | Inr (next', Some err) \<Rightarrow> Inr (NodeExtension h k (Some (Br next')) v, Some err)
              | Inr (next', None) \<Rightarrow> ext_UpdateHash mt_hs (NodeExtension h k (Some (Br next')) v)))
      else if prefix = key then
        (let keyTail = drop (length prefix) k in
         case NewNodeExtension keyTail nx v mt_hs of
           Inl p \<Rightarrow> Inl p
         | Inr (Inl err) \<Rightarrow> Inr (node, Some err)
         | Inr (Inr tailNode) \<Rightarrow>
         (case SetKey prefix node of
            Inl p \<Rightarrow> Inl p
          | Inr node \<Rightarrow>
              ext_UpdateHash mt_hs
                (SetValueObject (Some valueObject) (SetNext (Some (Ext tailNode)) node))))
      else
        (let nodeKeyTail = drop (length prefix) k in
         case NewNodeExtension nodeKeyTail nx v mt_hs of
           Inl p \<Rightarrow> Inl p
         | Inr (Inl err) \<Rightarrow> Inr (node, Some err)
         | Inr (Inr nodeTailNode) \<Rightarrow>
         (let newKeyTail = drop (length prefix) key in
          case NewNodeExtension newKeyTail None (Some valueObject) mt_hs of
            Inl p \<Rightarrow> Inl p
          | Inr (Inl err) \<Rightarrow> Inr (node, Some err)
          | Inr (Inr newTailNode) \<Rightarrow>
          (case NewNodeBranchWithChildren nodeTailNode newTailNode mt_hs of
             Inl p \<Rightarrow> Inl p
           | Inr (Inl err) \<Rightarrow> Inr (node, Some err)
           | Inr (Inr newBranch) \<Rightarrow>
           (case SetKey prefix node of
              Inl p \<Rightarrow> Inl p
            | Inr node \<Rightarrow>
                ext_UpdateHash mt_hs
                  (SetValueObject None (SetNext (Some (Br newBranch)) node)))))))"
| "insertToBranch mt_hs key valueObject (NodeBranch h cs) =
     (let node = NodeBranch h cs in
      case first_char key of
        Inl p \<Rightarrow> Inl p
      | Inr c \<Rightarrow>
      (case toChildIndex c of
         Inl p \<Rightarrow> Inl p
       | Inr i \<Rightarrow>
       (case get_child cs i of
         Inl p \<Rightarrow> Inl p
       | Inr (Some child) \<Rightarrow>
           (case insertToExtension mt_hs key valueObject child of
              Inl p \<Rightarrow> Inl p
            | Inr (child', Some err) \<Rightarrow> Inr (NodeBranch h (cs[i := Some child']), Some err)
            | Inr (child', None) \<Rightarrow> br_UpdateHash mt_hs (NodeBranch h (cs[i := Some child'])))
       | Inr None \<Rightarrow>
           (case NewNodeExtension key None (Some valueObject) mt_hs of
              Inl p \<Rightarrow> Inl p
            | Inr (Inl err) \<Rightarrow> Inr (node, Some err)
            | Inr (Inr n) \<Rightarrow>
            (case Append node n of
               Inl p \<Rightarrow> Inl p
             | Inr (node, Some err) \<Rightarrow> Inr (node, Some err)
             | Inr (node, None) \<Rightarrow> br_UpdateHash mt_hs node)))))"


definition Insert :: "MerklePatriciaTrie \<Rightarrow> bytes \<Rightarrow> bytes \<Rightarrow> MerklePatriciaTrie mutated" where
  "Insert mt key val =
     (if length key = 0 then Inr (mt, Some ErrKeyLength)
      else let ek = EncodeToString key; vo = val
           in case insertToBranch (hs mt) ek vo (root mt) of
                Inl p \<Rightarrow> Inl p
              | Inr (r, Some err) \<Rightarrow> Inr (mt\<lparr>root := r\<rparr>, Some err)
              | Inr (r, None) \<Rightarrow>
                  (case br_UpdateHash (hs mt) r of
                     Inl p \<Rightarrow> Inl p
                   | Inr (r, err) \<Rightarrow> Inr (mt\<lparr>root := r\<rparr>, err)))"

text \<open>
  \<^verbatim>\<open>deleteKeyInExtension\<close> and \<^verbatim>\<open>deleteKeyInBranch\<close> return
  \<^verbatim>\<open>(shouldDelete, err)\<close>; \<open>returning b\<close> is \<^verbatim>\<open>return b, node.UpdateHash(mt.hs)\<close>.
\<close>

type_synonym 'a deleted = "panic + ('a \<times> bool \<times> error option)"

definition returning :: "bool \<Rightarrow> 'a mutated \<Rightarrow> 'a deleted" where
  "returning shouldDelete r =
     (case r of Inl p \<Rightarrow> Inl p | Inr (n, err) \<Rightarrow> Inr (n, shouldDelete, err))"

fun deleteKeyInExtension ::
      "digest \<Rightarrow> string \<Rightarrow> nodeExtension \<Rightarrow> nodeExtension deleted"
  and deleteKeyInBranch ::
      "digest \<Rightarrow> string \<Rightarrow> nodeBranch \<Rightarrow> nodeBranch deleted" where
  "deleteKeyInExtension mt_hs key (NodeExtension h k nx v) =
     (let node = NodeExtension h k nx v in
      if key = k then
        (if v = None then Inr (node, False, Some ErrDeleteKeyNotFound)
         else case nx of
           None \<Rightarrow> Inr (node, True, None)
         | Some (Ext next) \<Rightarrow>
             (case SetKey (k @ ext_key next) node of
                Inl p \<Rightarrow> Inl p
              | Inr node \<Rightarrow>
                  returning False
                    (ext_UpdateHash mt_hs
                       (SetNext (ext_next next) (SetValueObject (ext_value next) node))))
         | Some (Br next) \<Rightarrow> returning False (ext_UpdateHash mt_hs node))
      else
      case commonPrefix k key of
        Inl err \<Rightarrow> Inl (PanicCommonPrefix err)
      | Inr prefix \<Rightarrow>
      if prefix = key then Inr (node, False, Some ErrValueObjectNotFound)
      else if prefix \<noteq> k then Inr (node, False, Some ErrValueObjectNotFound)
      else
        (let keyTail = drop (length prefix) key in
         case nx of
           None \<Rightarrow> Inr (node, False, Some ErrValueObjectNotFound)
         | Some (Ext next) \<Rightarrow>
             (case first_char keyTail of
                Inl p \<Rightarrow> Inl p
              | Inr c \<Rightarrow>
             (case first_char (ext_key next) of
                Inl p \<Rightarrow> Inl p
              | Inr d \<Rightarrow>
                if c \<noteq> d then Inr (node, False, Some ErrValueObjectNotFound)
                else
                  (case deleteKeyInExtension mt_hs keyTail next of
                     Inl p \<Rightarrow> Inl p
                   | Inr (next', sd, Some err) \<Rightarrow>
                       Inr (NodeExtension h k (Some (Ext next')) v, False, Some err)
                   | Inr (next', sd, None) \<Rightarrow>
                       if \<not> sd
                       then returning False (ext_UpdateHash mt_hs (NodeExtension h k (Some (Ext next')) v))
                       else
                         (let node = SetNext None node in
                          if v \<noteq> None then returning False (ext_UpdateHash mt_hs node)
                          else Inr (node, True, None)))))
         | Some (Br next) \<Rightarrow>
             (case deleteKeyInBranch mt_hs keyTail next of
                Inl p \<Rightarrow> Inl p
              | Inr (next', sd, Some err) \<Rightarrow>
                  Inr (NodeExtension h k (Some (Br next')) v, False, Some err)
              | Inr (next', sd, None) \<Rightarrow>
                  if \<not> sd
                  then returning False (ext_UpdateHash mt_hs (NodeExtension h k (Some (Br next')) v))
                  else
                    (let newNext = First next' in
                     if v \<noteq> None
                     then returning False
                            (ext_UpdateHash mt_hs (SetNext (map_option Ext newNext) node))
                     else
                       (case newNext of
                          None \<Rightarrow> Inl PanicNewNextNil
                        | Some newNext \<Rightarrow>
                        (case SetKey (k @ ext_key newNext) node of
                           Inl p \<Rightarrow> Inl p
                         | Inr node \<Rightarrow>
                             returning False
                               (ext_UpdateHash mt_hs
                                  (SetNext (ext_next newNext)
                                     (SetValueObject (ext_value newNext) node)))))))))"
| "deleteKeyInBranch mt_hs key (NodeBranch h cs) =
     (let node = NodeBranch h cs in
      case first_char key of
        Inl p \<Rightarrow> Inl p
      | Inr c \<Rightarrow>
      (case toChildIndex c of
         Inl p \<Rightarrow> Inl p
       | Inr i \<Rightarrow>
       (case get_child cs i of
          Inl p \<Rightarrow> Inl p
        | Inr None \<Rightarrow> Inr (node, False, Some (ErrNotFoundUnderBranch c))
        | Inr (Some child) \<Rightarrow>
            (case deleteKeyInExtension mt_hs key child of
               Inl p \<Rightarrow> Inl p
             | Inr (child', sd, Some err) \<Rightarrow>
                 Inr (NodeBranch h (cs[i := Some child']), False, Some err)
             | Inr (child', sd, None) \<Rightarrow>
                 (let node = NodeBranch h (cs[i := Some child']) in
                  if \<not> sd then returning False (br_UpdateHash mt_hs node)
                  else
                    (case br_Delete node c of
                       Inl p \<Rightarrow> Inl p
                     | Inr (node, Some err) \<Rightarrow> Inr (node, False, Some err)
                     | Inr (node, None) \<Rightarrow>
                         if Count node = 1 then Inr (node, True, None)
                         else returning False (br_UpdateHash mt_hs node)))))))"

definition Delete :: "MerklePatriciaTrie \<Rightarrow> bytes \<Rightarrow> MerklePatriciaTrie mutated" where
  "Delete mt key =
     (if length key = 0 then Inr (mt, Some ErrKeyLength)
      else let ek = EncodeToString key
           in case deleteKeyInBranch (hs mt) ek (root mt) of
                Inl p \<Rightarrow> Inl p
              | Inr (r, _, Some err) \<Rightarrow>
                  Inr (mt\<lparr>root := r\<rparr>, Some (Wrap err (''failed to delete key = <'' @ ek @ ''>'')))
              | Inr (r, _, None) \<Rightarrow>
                  (case br_UpdateHash (hs mt) r of
                     Inl p \<Rightarrow> Inl p
                   | Inr (r, err) \<Rightarrow> Inr (mt\<lparr>root := r\<rparr>, err)))"

section \<open>Merkle paths\<close>

datatype MerkleSet = MerkleSet (hashes: "HashBlob list")

type_synonym MerklePath = "MerkleSet list"

text \<open>
  The lookup functions take the same pointers to mutable nodes as the mutators, so they
  are modelled in the same way: the node's state after the call is returned with the
  result.
\<close>

type_synonym ('a, 'b) observed = "panic + ('a \<times> (error + 'b))"

text \<open>The loop of \<^verbatim>\<open>merklePathInBranch\<close> over the children; an empty slot appends
  a nil blob.\<close>

fun children_hashes :: "nodeExtension option list \<Rightarrow> panic + HashBlob list" where
  "children_hashes [] = Inr []"
| "children_hashes (Some c # cs) =
     (case Hash (ext_hash c) of
        Inl p \<Rightarrow> Inl p
      | Inr h \<Rightarrow> (case children_hashes cs of Inl p \<Rightarrow> Inl p | Inr rest \<Rightarrow> Inr (h # rest)))"
| "children_hashes (None # cs) =
     (case children_hashes cs of Inl p \<Rightarrow> Inl p | Inr rest \<Rightarrow> Inr ([] # rest))"

fun merklePathInExtension :: "string \<Rightarrow> nodeExtension \<Rightarrow> (nodeExtension, MerklePath) observed"
  and merklePathInBranch :: "string \<Rightarrow> nodeBranch \<Rightarrow> (nodeBranch, MerklePath) observed" where
  "merklePathInExtension key (NodeExtension h k nx v) =
     (let node = NodeExtension h k nx v in
      if key = k then
        (if v = None then Inr (node, Inl ErrValueObjectNotFound)
         else case Hash h of
                Inl p \<Rightarrow> Inl p
              | Inr nh \<Rightarrow> Inr (node, Inr [MerkleSet [nh]]))
      else
      case commonPrefix k key of
        Inl err \<Rightarrow> Inl (PanicCommonPrefix err)
      | Inr prefix \<Rightarrow>
      if prefix = key then Inr (node, Inl ErrValueObjectNotFound)
      else if prefix \<noteq> k then Inr (node, Inl ErrValueObjectNotFound)
      else
        (let keyTail = drop (length prefix) key in
         case nx of
           None \<Rightarrow> Inr (node, Inl ErrValueObjectNotFound)
         | Some (Ext next) \<Rightarrow>
             (case first_char keyTail of
                Inl p \<Rightarrow> Inl p
              | Inr c \<Rightarrow>
             (case first_char (ext_key next) of
                Inl p \<Rightarrow> Inl p
              | Inr d \<Rightarrow>
                if c \<noteq> d then Inr (node, Inl ErrValueObjectNotFound)
                else
                  (case merklePathInExtension keyTail next of
                     Inl p \<Rightarrow> Inl p
                   | Inr (next', Inl err) \<Rightarrow>
                       Inr (NodeExtension h k (Some (Ext next')) v, Inl err)
                   | Inr (next', Inr path) \<Rightarrow>
                       (case Hash h of
                          Inl p \<Rightarrow> Inl p
                        | Inr nh \<Rightarrow>
                            Inr (NodeExtension h k (Some (Ext next')) v,
                                 Inr (path @ [MerkleSet [nh]]))))))
         | Some (Br next) \<Rightarrow>
             (case merklePathInBranch keyTail next of
                Inl p \<Rightarrow> Inl p
              | Inr (next', Inl err) \<Rightarrow>
                  Inr (NodeExtension h k (Some (Br next')) v, Inl err)
              | Inr (next', Inr path) \<Rightarrow>
                  (case Hash h of
                     Inl p \<Rightarrow> Inl p
                   | Inr nh \<Rightarrow>
                       Inr (NodeExtension h k (Some (Br next')) v,
                            Inr (path @ [MerkleSet [nh]]))))))"
| "merklePathInBranch key (NodeBranch h cs) =
     (let node = NodeBranch h cs in
      case first_char key of
        Inl p \<Rightarrow> Inl p
      | Inr c \<Rightarrow>
      (case toChildIndex c of
         Inl p \<Rightarrow> Inl p
       | Inr i \<Rightarrow>
       (case get_child cs i of
          Inl p \<Rightarrow> Inl p
        | Inr None \<Rightarrow> Inr (node, Inl (ErrNotFoundUnderBranch c))
        | Inr (Some child) \<Rightarrow>
            (case merklePathInExtension key child of
               Inl p \<Rightarrow> Inl p
             | Inr (child', Inl err) \<Rightarrow> Inr (NodeBranch h (cs[i := Some child']), Inl err)
             | Inr (child', Inr path) \<Rightarrow>
                 (case children_hashes (cs[i := Some child']) of
                    Inl p \<Rightarrow> Inl p
                  | Inr blobs \<Rightarrow>
                      Inr (NodeBranch h (cs[i := Some child']),
                           Inr (path @ [MerkleSet blobs])))))))"

definition FindMerklePath ::
  "MerklePatriciaTrie \<Rightarrow> bytes \<Rightarrow> (MerklePatriciaTrie, MerklePath) observed" where
  "FindMerklePath mt key =
     (if length key = 0 then Inr (mt, Inl ErrKeyLength)
      else let ek = EncodeToString key
           in case merklePathInBranch ek (root mt) of
                Inl p \<Rightarrow> Inl p
              | Inr (r, Inl err) \<Rightarrow> Inr (mt\<lparr>root := r\<rparr>, Inl err)
              | Inr (r, Inr path) \<Rightarrow>
                  (case Hash (br_hash r) of
                     Inl p \<Rightarrow> Inl p
                   | Inr rh \<Rightarrow> Inr (mt\<lparr>root := r\<rparr>, Inr (path @ [MerkleSet [rh]]))))"

definition NewMerklePatriciaTrie :: "digest \<Rightarrow> panic + MerklePatriciaTrie" where
  "NewMerklePatriciaTrie d =
     (case br_UpdateHash d NewNodeBranch of
        Inl p \<Rightarrow> Inl p
      | Inr (r, Some err) \<Rightarrow> Inl (PanicRootHash err)
      | Inr (r, None) \<Rightarrow> Inr \<lparr>hs = d, root = r\<rparr>)"

section \<open>The published formats, in the specification's words\<close>

text \<open>
  The hash pre-image as an ordered list of fields, each a string or a byte blob:
  for an Extension the tag E, the key, then C and the hash of \<open>next\<close> or the blob NC,
  then V and the value or the string NV; for a Branch the tag B and, slot by slot, C and
  the child's hash or the string NC.  \<open>emit\<close> encodes the fields in order.
\<close>

definition emit :: "gob_value list \<Rightarrow> bytes" where
  "emit vs = foldl Encode [] vs"

definition ext_preimage :: "nodeExtension \<Rightarrow> gob_value list" where
  "ext_preimage n =
     [GobString ''E'', GobString (ext_key n)]
     @ (case ext_next n of
          Some (Ext e) \<Rightarrow> [GobString ''C'', GobBytes (ext_hash e)]
        | Some (Br b) \<Rightarrow> [GobString ''C'', GobBytes (br_hash b)]
        | None \<Rightarrow> [GobBytes (string_bytes ''NC'')])
     @ (case ext_value n of
          Some v \<Rightarrow> [GobString ''V'', GobBytes v]
        | None \<Rightarrow> [GobString ''NV''])"

definition slot_preimage :: "nodeExtension option \<Rightarrow> gob_value list" where
  "slot_preimage slot =
     (case slot of
        Some child \<Rightarrow> [GobString ''C'', GobBytes (ext_hash child)]
      | None \<Rightarrow> [GobString ''NC''])"

definition br_preimage :: "nodeBranch \<Rightarrow> gob_value list" where
  "br_preimage n = GobString ''B'' # concat (map slot_preimage (br_children n))"

text \<open>
  \<^verbatim>\<open>Serialize\<close> calls \<^verbatim>\<open>Hash()\<close> on \<open>next\<close> and on every child, which panics
  on a node that was never hashed.
\<close>

definition next_hashed :: "nodeExtension \<Rightarrow> bool" where
  "next_hashed n =
     (case ext_next n of
        None \<Rightarrow> True
      | Some (Ext e) \<Rightarrow> ext_hash e \<noteq> []
      | Some (Br b) \<Rightarrow> br_hash b \<noteq> [])"

definition slot_hashed :: "nodeExtension option \<Rightarrow> bool" where
  "slot_hashed slot = (case slot of None \<Rightarrow> True | Some child \<Rightarrow> ext_hash child \<noteq> [])"

definition children_hashed :: "nodeExtension option list \<Rightarrow> bool" where
  "children_hashed cs = list_all slot_hashed cs"

text \<open>
  The slot of a hex digit as the data model states it: \<open>0\<close> to \<open>9\<close> are slots 0 to 9,
  \<open>a\<close> to \<open>f\<close> are slots 10 to 15.
\<close>

definition hex_digit_index :: "char \<Rightarrow> nat option" where
  "hex_digit_index ch =
     (if of_char CHR ''0'' \<le> (of_char ch :: nat) \<and> (of_char ch :: nat) \<le> of_char CHR ''9''
      then Some (of_char ch - of_char CHR ''0'')
      else if of_char CHR ''a'' \<le> (of_char ch :: nat) \<and> (of_char ch :: nat) \<le> of_char CHR ''f''
      then Some (of_char ch - of_char CHR ''a'' + 10)
      else None)"

text \<open>
  A stored key: from a Branch the lookup takes the slot of the key's first character;
  the keys of the Extensions passed spell the hex key, and the last one holds a value.
  The third argument lists the nodes on that path, the leaf first.
\<close>

inductive ext_stored :: "nodeExtension \<Rightarrow> string \<Rightarrow> node list \<Rightarrow> bool"
      and br_stored :: "nodeBranch \<Rightarrow> string \<Rightarrow> node list \<Rightarrow> bool" where
  here: "ext_key e \<noteq> [] \<Longrightarrow> ext_value e \<noteq> None \<Longrightarrow> ext_stored e (ext_key e) [Ext e]"
| below_ext: "ext_key e \<noteq> [] \<Longrightarrow> ext_next e = Some (Ext n) \<Longrightarrow> ext_stored n t ns
              \<Longrightarrow> ext_stored e (ext_key e @ t) (ns @ [Ext e])"
| below_br: "ext_key e \<noteq> [] \<Longrightarrow> ext_next e = Some (Br b) \<Longrightarrow> br_stored b t ns
              \<Longrightarrow> ext_stored e (ext_key e @ t) (ns @ [Ext e])"
| in_slot: "first_char key = Inr c \<Longrightarrow> toChildIndex c = Inr i \<Longrightarrow> i < length (br_children b)
              \<Longrightarrow> br_children b ! i = Some e \<Longrightarrow> ext_stored e key ns
              \<Longrightarrow> br_stored b key (ns @ [Br b])"

fun leaf_key :: "node list \<Rightarrow> string" where
  "leaf_key (Ext l # _) = ext_key l"
| "leaf_key _ = []"

text \<open>
  The set a node on the path contributes to a Merkle path: an Extension its own hash,
  a Branch one entry per slot in slot order, nil for an empty slot.
\<close>

definition slot_hash :: "nodeExtension option \<Rightarrow> HashBlob" where
  "slot_hash slot = (case slot of None \<Rightarrow> [] | Some child \<Rightarrow> ext_hash child)"

fun merkle_set :: "node \<Rightarrow> MerkleSet" where
  "merkle_set (Ext e) = MerkleSet [ext_hash e]"
| "merkle_set (Br b) = MerkleSet (map slot_hash (br_children b))"

fun merkle_set_size :: "node \<Rightarrow> nat" where
  "merkle_set_size (Ext e) = 1"
| "merkle_set_size (Br b) = ChildIndexCount"

text \<open>A node on the path whose \<^verbatim>\<open>Hash()\<close> calls return: its own cached hash, or
  those of its children, are not empty; a Branch has its 16 slots.\<close>

fun path_node_hashed :: "node \<Rightarrow> bool" where
  "path_node_hashed (Ext e) = (ext_hash e \<noteq> [])"
| "path_node_hashed (Br b) =
     (length (br_children b) = ChildIndexCount \<and> children_hashed (br_children b))"

section \<open>Runs of operations on a fresh trie\<close>

datatype operation = OpInsert bytes bytes | OpDelete bytes

fun apply_operation :: "MerklePatriciaTrie \<Rightarrow> operation \<Rightarrow> MerklePatriciaTrie mutated" where
  "apply_operation mt (OpInsert k v) = Insert mt k v"
| "apply_operation mt (OpDelete k) = Delete mt k"

text \<open>A run stops at the first operation that returns an error.\<close>

fun apply_all :: "MerklePatriciaTrie \<Rightarrow> operation list \<Rightarrow> MerklePatriciaTrie mutated" where
  "apply_all mt [] = Inr (mt, None)"
| "apply_all mt (x # xs) =
     (case apply_operation mt x of
        Inl p \<Rightarrow> Inl p
      | Inr (mt', Some err) \<Rightarrow> Inr (mt', Some err)
      | Inr (mt', None) \<Rightarrow> apply_all mt' xs)"

definition run :: "digest \<Rightarrow> operation list \<Rightarrow> MerklePatriciaTrie mutated" where
  "run d xs = (case NewMerklePatriciaTrie d of Inl p \<Rightarrow> Inl p | Inr mt \<Rightarrow> apply_all mt xs)"

text \<open>What a run leaves: the root node, or the root's \<^verbatim>\<open>Hash()\<close>, with the error.\<close>

definition outcome :: "MerklePatriciaTrie mutated \<Rightarrow> panic + (nodeBranch \<times> error option)" where
  "outcome r = map_sum id (map_prod root id) r"

definition root_hash :: "MerklePatriciaTrie mutated \<Rightarrow> panic + (HashBlob \<times> error option)" where
  "root_hash r =
     (case r of
        Inl p \<Rightarrow> Inl p
      | Inr (mt, err) \<Rightarrow>
          (case Hash (br_hash (root mt)) of Inl p \<Rightarrow> Inl p | Inr h \<Rightarrow> Inr (h, err)))"

text \<open>
  A concrete digest for the closed examples: FNV-1a with 32 bits, its sum written
  big-endian in four bytes.
\<close>

definition fnv_step :: "32 word \<Rightarrow> byte \<Rightarrow> 32 word" where
  "fnv_step h b = (h XOR ucast b) * 16777619"

definition fnv1a :: "bytes \<Rightarrow> 32 word" where
  "fnv1a bs = foldl fnv_step 2166136261 bs"

definition be32 :: "32 word \<Rightarrow> bytes" where
  "be32 w = [ucast (drop_bit 24 w), ucast (drop_bit 16 w), ucast (drop_bit 8 w), ucast w]"

definition fnv :: digest where
  "fnv bs = Inr (be32 (fnv1a bs))"

text \<open>The trie that holds the one key \<^verbatim>\<open>"key"\<close> with the value \<^verbatim>\<open>"value"\<close>.\<close>

definition key_leaf :: nodeExtension where
  "key_leaf = NodeExtension [172, 97, 0, 14] ''6b6579'' None (Some [118, 97, 108, 117, 101])"

definition key_root :: nodeBranch where
  "key_root =
     NodeBranch [250, 185, 121, 180]
       [None, None, None, None, None, None, Some key_leaf, None,
        None, None, None, None, None, None, None, None]"

definition key_trie :: MerklePatriciaTrie where
  "key_trie = \<lparr>hs = fnv, root = key_root\<rparr>"

text \<open>The trie that holds the keys 0x12, 0x1234 and 0x1256 with the values 1, 2 and 3.\<close>

definition leaf_34 :: nodeExtension where
  "leaf_34 = NodeExtension [144, 34, 75, 67] ''34'' None (Some [2])"

definition leaf_56 :: nodeExtension where
  "leaf_56 = NodeExtension [62, 90, 163, 68] ''56'' None (Some [3])"

definition fork_12 :: nodeBranch where
  "fork_12 =
     NodeBranch [156, 92, 116, 153]
       [None, None, None, Some leaf_34, None, Some leaf_56, None, None,
        None, None, None, None, None, None, None, None]"

definition ext_12 :: nodeExtension where
  "ext_12 = NodeExtension [232, 32, 2, 244] ''12'' (Some (Br fork_12)) (Some [1])"

definition root_12 :: nodeBranch where
  "root_12 =
     NodeBranch [114, 103, 157, 35]
       [None, Some ext_12, None, None, None, None, None, None,
        None, None, None, None, None, None, None, None]"

definition trie_12 :: MerklePatriciaTrie where
  "trie_12 = \<lparr>hs = fnv, root = root_12\<rparr>"

definition ops_12 :: "operation list" where
  "ops_12 = [OpInsert [0x12] [1], OpInsert [0x12, 0x34] [2], OpInsert [0x12, 0x56] [3]]"

section \<open>Lemmas\<close>

subsection \<open>Serialization\<close>

lemma ext_Serialize_preimage:
  "next_hashed n \<Longrightarrow> ext_Serialize n = Inr (emit (ext_preimage n))"
  by (auto simp: next_hashed_def ext_Serialize_def ext_preimage_def emit_def Hash_def Let_def
           split: option.splits node.splits)

lemma ext_Serialize_panic:
  "\<not> next_hashed n \<Longrightarrow> ext_Serialize n = Inl PanicHashEmpty"
  by (auto simp: next_hashed_def ext_Serialize_def Hash_def Let_def
           split: option.splits node.splits)

lemma br_Serialize_loop_preimage:
  "children_hashed cs \<Longrightarrow>
   br_Serialize_loop w cs = Inr (foldl Encode w (concat (map slot_preimage cs)))"
proof (induction w cs rule: br_Serialize_loop.induct)
  case (1 w)
  then show ?case by simp
next
  case (2 w child cs)
  then show ?case
    by (simp add: children_hashed_def slot_hashed_def slot_preimage_def Hash_def Let_def)
next
  case (3 w cs)
  then show ?case
    by (simp add: children_hashed_def slot_hashed_def slot_preimage_def)
qed

lemma br_Serialize_loop_panic:
  "\<not> children_hashed cs \<Longrightarrow> br_Serialize_loop w cs = Inl PanicHashEmpty"
proof (induction w cs rule: br_Serialize_loop.induct)
  case (1 w)
  then show ?case by (simp add: children_hashed_def)
next
  case (2 w child cs)
  then show ?case
    by (auto simp add: children_hashed_def slot_hashed_def Hash_def Let_def)
next
  case (3 w cs)
  then show ?case
    by (simp add: children_hashed_def slot_hashed_def)
qed

lemma br_Serialize_preimage:
  "children_hashed (br_children n) \<Longrightarrow> br_Serialize n = Inr (emit (br_preimage n))"
  by (simp add: br_Serialize_def br_preimage_def emit_def br_Serialize_loop_preimage)

lemma gob_type_id: "gob_uint 10 = [10]" "gob_uint 12 = [12]"
  by (simp_all add: gob_uint_def)

lemma gob_payload_length:
  "length (gob_payload (GobBytes (string_bytes s))) = length (gob_payload (GobString s))"
  by (simp add: string_bytes_def gob_type_id)

lemma Encode_kind: "Encode w (GobBytes (string_bytes s)) \<noteq> Encode w (GobString s)"
proof -
  have "gob_payload (GobBytes (string_bytes s)) \<noteq> gob_payload (GobString s)"
    by (simp add: gob_type_id)
  then show ?thesis
    unfolding Encode_def gob_payload_length by simp
qed

lemma ext_UpdateHash_preimage:
  "ext_UpdateHash d e =
     (if next_hashed e
      then (case d (emit (ext_preimage e)) of
              Inl err \<Rightarrow> Inr (e, Some (Wrap err ''updateHash failed''))
            | Inr res \<Rightarrow> Inr (NodeExtension res (ext_key e) (ext_next e) (ext_value e), None))
      else Inl PanicHashEmpty)"
  by (simp add: ext_UpdateHash_def ext_Serialize_preimage ext_Serialize_panic)

lemma br_Serialize_panic:
  "\<not> children_hashed (br_children n) \<Longrightarrow> br_Serialize n = Inl PanicHashEmpty"
  by (simp add: br_Serialize_def br_Serialize_loop_panic)

lemma br_UpdateHash_preimage:
  "br_UpdateHash d b =
     (if children_hashed (br_children b)
      then (case d (emit (br_preimage b)) of
              Inl err \<Rightarrow> Inr (b, Some (Wrap err ''UpdateHash() failed''))
            | Inr res \<Rightarrow> Inr (NodeBranch res (br_children b), None))
      else Inl PanicHashEmpty)"
  by (simp add: br_UpdateHash_def br_Serialize_preimage br_Serialize_panic)

subsection \<open>Lookups leave the nodes as they are\<close>

lemma merklePath_frame:
  "(\<forall>e' r. merklePathInExtension key e = Inr (e', r) \<longrightarrow> e' = e)"
  "(\<forall>b' r. merklePathInBranch key2 b = Inr (b', r) \<longrightarrow> b' = b)"
proof (induction key e and key2 b rule: merklePathInExtension_merklePathInBranch.induct)
  case (1 key h k nx v)
  show ?case
  proof (intro allI impI)
    fix e' r
    assume A: "merklePathInExtension key (NodeExtension h k nx v) = Inr (e', r)"
    show "e' = NodeExtension h k nx v"
    proof (cases "key = k")
      case True
      with A show ?thesis
        by (auto simp: Hash_def Let_def split: if_splits)
    next
      case False
      have "\<exists>p. commonPrefix k key = Inr p"
      proof (cases "commonPrefix k key")
        case (Inl err)
        with A False show ?thesis by (simp add: Let_def)
      next
        case (Inr p)
        then show ?thesis by simp
      qed
      then obtain p where cp: "commonPrefix k key = Inr p" ..
      show ?thesis
      proof (cases "p = key \<or> p \<noteq> k")
        case True
        with A False cp show ?thesis by (auto simp: Let_def split: if_splits)
      next
        case pk: False
        then have p1: "p \<noteq> key" and p2: "\<not> p \<noteq> k" by auto
        show ?thesis
        proof (cases nx)
          case None
          with A False cp pk show ?thesis by (auto simp: Let_def)
        next
          case (Some n)
          show ?thesis
          proof (cases n)
            case (Ext nxt)
            note IH = 1(1) [OF refl False cp p1 p2 refl Some Ext]
            from A False cp pk Some Ext IH show ?thesis
              by (auto simp: Hash_def Let_def split: sum.splits if_splits prod.splits)
          next
            case (Br nxt)
            note IH = 1(2) [OF refl False cp p1 p2 refl Some Br]
            from A False cp pk Some Br IH show ?thesis
              by (auto simp: Hash_def Let_def split: sum.splits if_splits prod.splits)
          qed
        qed
      qed
    qed
  qed
next
  case (2 key h cs)
  show ?case
  proof (intro allI impI)
    fix b' r
    assume A: "merklePathInBranch key (NodeBranch h cs) = Inr (b', r)"
    have "\<exists>c. first_char key = Inr c"
      using A by (cases "first_char key") (simp_all add: Let_def)
    then obtain c where c: "first_char key = Inr c" ..
    have "\<exists>i. toChildIndex c = Inr i"
      using A c by (cases "toChildIndex c") (simp_all add: Let_def del: toChildIndex.simps)
    then obtain i where i: "toChildIndex c = Inr i" ..
    have "\<exists>slot. get_child cs i = Inr slot"
      using A c i by (cases "get_child cs i") (simp_all add: Let_def del: toChildIndex.simps)
    then obtain slot where s: "get_child cs i = Inr slot" ..
    show "b' = NodeBranch h cs"
    proof (cases slot)
      case None
      with A c i s show ?thesis by (auto simp: Let_def simp del: toChildIndex.simps)
    next
      case (Some child)
      note IH = 2 [OF refl c i s Some]
      have ci: "cs ! i = Some child"
        using s Some by (auto simp: get_child_def split: if_splits)
      have "cs[i := Some child] = cs"
        by (metis ci list_update_id)
      with A c i s Some IH show ?thesis
        by (auto simp: Let_def simp del: toChildIndex.simps split: sum.splits prod.splits)
    qed
  qed
qed

subsection \<open>Stored keys\<close>

lemma commonPrefix_loop_equal:
  "\<forall>j. i \<le> j \<and> j < m \<longrightarrow> a ! j = b ! j \<Longrightarrow> commonPrefix_loop a b m i = take m a"
proof (induction a b m i rule: commonPrefix_loop.induct)
  case (1 a b minLen i)
  show ?case
  proof (cases "i < minLen")
    case True
    with 1 show ?thesis by (subst commonPrefix_loop.simps) simp
  next
    case False
    then show ?thesis by (subst commonPrefix_loop.simps) simp
  qed
qed

lemma commonPrefix_append:
  assumes "k \<noteq> []"
  shows "commonPrefix k (k @ t) = Inr k"
proof -
  have "commonPrefix_loop k (k @ t) (length k) 1 = take (length k) k"
    by (rule commonPrefix_loop_equal) (simp add: nth_append)
  moreover have "min (length k) (length (k @ t)) = length k"
    by simp
  moreover have "hd (k @ t) = hd k"
    using assms by simp
  ultimately show ?thesis
    using assms by (simp add: commonPrefix_def Let_def del: commonPrefix_loop.simps)
qed

lemma stored_shape:
  "ext_stored e key ns \<Longrightarrow> ext_key e \<noteq> [] \<and> (\<exists>t. key = ext_key e @ t) \<and> (\<exists>l r. ns = Ext l # r)"
  "br_stored b key ns \<Longrightarrow> key \<noteq> [] \<and> (\<exists>l r. ns = Ext l # r)"
proof (induction rule: ext_stored_br_stored.inducts)
  case (here e)
  then show ?case by simp
next
  case (below_ext e n t ns)
  then show ?case by auto
next
  case (below_br e b t ns)
  then show ?case by auto
next
  case (in_slot key c i b e ns)
  then show ?case by auto
qed

lemma leaf_key_snoc: "ns = Ext l # r \<Longrightarrow> leaf_key (ns @ [x]) = leaf_key ns"
  by simp

lemma insert_stored:
  "ext_stored e key ns \<Longrightarrow> insertToExtension d key v e = Inr (e, Some (ErrKeyExists (leaf_key ns)))"
  "br_stored b key ns \<Longrightarrow> insertToBranch d key v b = Inr (b, Some (ErrKeyExists (leaf_key ns)))"
proof (induction rule: ext_stored_br_stored.inducts)
  case (here e)
  then show ?case by (cases e) auto
next
  case (below_ext e n t ns)
  obtain h k nx w where e: "e = NodeExtension h k nx w" by (cases e)
  from stored_shape(1) [OF below_ext(3)] obtain t' l r where
    t: "t = ext_key n @ t'" and n: "ext_key n \<noteq> []" and ns: "ns = Ext l # r" by auto
  have neq: "k @ t \<noteq> k" using t n by simp
  have fc: "first_char t = first_char (ext_key n)" using t n by (cases "ext_key n") auto
  obtain c where c: "first_char (ext_key n) = Inr c" using n by (cases "ext_key n") auto
  show ?case
    using below_ext(1,2,4) e neq fc c ns
    by (simp add: commonPrefix_append Let_def)
next
  case (below_br e b t ns)
  obtain h k nx w where e: "e = NodeExtension h k nx w" by (cases e)
  from stored_shape(2) [OF below_br(3)] obtain l r where
    t: "t \<noteq> []" and ns: "ns = Ext l # r" by auto
  have neq: "k @ t \<noteq> k" using t by simp
  show ?case
    using below_br(1,2,4) e neq ns
    by (simp add: commonPrefix_append Let_def)
next
  case (in_slot key c i b e ns)
  obtain h cs where b: "b = NodeBranch h cs" by (cases b)
  from stored_shape(1) [OF in_slot(5)] obtain l r where ns: "ns = Ext l # r" by auto
  have upd: "cs[i := Some e] = cs"
    using in_slot(3,4) b by (metis list_update_id nodeBranch.sel(2))
  show ?case
    using in_slot(1,2,3,4,6) b ns upd
    by (simp add: get_child_def Let_def del: toChildIndex.simps)
qed

lemma children_hashes_hashed:
  "children_hashed cs \<Longrightarrow> children_hashes cs = Inr (map slot_hash cs)"
proof (induction cs rule: children_hashes.induct)
  case 1
  then show ?case by simp
next
  case (2 c cs)
  then show ?case by (simp add: children_hashed_def slot_hashed_def slot_hash_def Hash_def)
next
  case (3 cs)
  then show ?case by (simp add: children_hashed_def slot_hashed_def slot_hash_def)
qed

lemma merklePath_stored:
  "ext_stored e key ns \<Longrightarrow> list_all path_node_hashed ns
     \<Longrightarrow> merklePathInExtension key e = Inr (e, Inr (map merkle_set ns))"
  "br_stored b key ns \<Longrightarrow> list_all path_node_hashed ns
     \<Longrightarrow> merklePathInBranch key b = Inr (b, Inr (map merkle_set ns))"
proof (induction rule: ext_stored_br_stored.inducts)
  case (here e)
  then show ?case by (cases e) (auto simp: Hash_def Let_def)
next
  case (below_ext e n t ns)
  obtain h k nx w where e: "e = NodeExtension h k nx w" by (cases e)
  from stored_shape(1) [OF below_ext(3)] obtain t' where
    t: "t = ext_key n @ t'" and n: "ext_key n \<noteq> []" by auto
  have neq: "k @ t \<noteq> k" using t n by simp
  have fc: "first_char t = first_char (ext_key n)" using t n by (cases "ext_key n") auto
  obtain c where c: "first_char (ext_key n) = Inr c" using n by (cases "ext_key n") auto
  show ?case
    using below_ext(1,2,4,5) e neq fc c
    by (simp add: commonPrefix_append Let_def Hash_def)
next
  case (below_br e b t ns)
  obtain h k nx w where e: "e = NodeExtension h k nx w" by (cases e)
  from stored_shape(2) [OF below_br(3)] have t: "t \<noteq> []" by auto
  have neq: "k @ t \<noteq> k" using t by simp
  show ?case
    using below_br(1,2,4,5) e neq
    by (simp add: commonPrefix_append Let_def Hash_def)
next
  case (in_slot key c i b e ns)
  obtain h cs where b: "b = NodeBranch h cs" by (cases b)
  have upd: "cs[i := Some e] = cs"
    using in_slot(3,4) b by (metis list_update_id nodeBranch.sel(2))
  have ch: "children_hashes cs = Inr (map slot_hash cs)"
    using in_slot(7) b by (simp add: children_hashes_hashed)
  show ?case
    using in_slot(1,2,3,4,6,7) b upd ch
    by (simp add: get_child_def Let_def del: toChildIndex.simps)
qed

lemma merkle_set_sizes:
  "list_all path_node_hashed ns \<Longrightarrow>
   map (\<lambda>n. length (hashes (merkle_set n))) ns = map merkle_set_size ns"
proof (induction ns)
  case Nil
  then show ?case by simp
next
  case (Cons n ns)
  then show ?case by (cases n) simp_all
qed

subsection \<open>The example tries are built by the operations\<close>

lemma ops_12_outcome: "outcome (run fnv ops_12) = Inr (root_12, None)"
  by code_simp

lemma key_outcome:
  "outcome (run fnv [OpInsert (string_bytes ''key'') (string_bytes ''value'')]) = Inr (key_root, None)"
  by code_simp

section \<open>The claims\<close>

text \<open>
  C1 (insertion order).  The claim: the pairs of a finite set, inserted into fresh tries
  in two orders, give equal root hashes.  On the code, the keys 0x10 and 0x1a have the hex
  keys 10 and 1a; \<open>toChildIndex\<close> sends both \<open>0\<close> and \<open>a\<close> to slot 0, so in the Branch
  built for the two tails the later child replaces the earlier one.  Both insertions
  return no error, and the two orders end in different root hashes.
\<close>

theorem insert_order_changes_root_hash:
  "root_hash (run fnv [OpInsert [0x10] [1], OpInsert [0x1a] [2]]) = Inr ([239, 65, 134, 225], None)
   \<and> root_hash (run fnv [OpInsert [0x1a] [2], OpInsert [0x10] [1]]) = Inr ([23, 72, 14, 142], None)"
  by code_simp

text \<open>
  C2 (exact-match Delete before a Branch).  The claim: when the deleted key ends at an
  Extension that holds a value and whose \<open>next\<close> is a Branch, Delete clears the value
  and returns shouldCollapse = false.  On the code, that branch of
  \<open>deleteKeyInExtension\<close> only refreshes the hash: after inserting 0x12, 0x1234 and
  0x1256, deleting 0x12 returns no error and shouldCollapse = false, the Extension
  still holds the value, the root is the one before, and a second Delete of 0x12
  succeeds again.
\<close>

theorem delete_before_branch_keeps_value:
  "outcome (run fnv ops_12) = Inr (root_12, None)
   \<and> deleteKeyInExtension fnv ''12'' ext_12 = Inr (ext_12, False, None)
   \<and> ext_value ext_12 = Some [1]
   \<and> outcome (run fnv (ops_12 @ [OpDelete [0x12], OpDelete [0x12]])) = Inr (root_12, None)"
  by code_simp

text \<open>
  C3 (dispatch by first hex digit).  The claim: the Extension in slot \<open>i\<close> of a Branch
  starts with the hex digit that maps to \<open>i\<close>, where \<open>a\<close> to \<open>f\<close> map to 10 to 15.  On
  the code, inserting the key 0xa0 into a fresh trie puts the Extension with key a0
  into slot 0: \<open>toChildIndex\<close> maps \<open>a\<close> to 0, the data model to 10.
\<close>

theorem letter_child_in_digit_slot:
  "outcome (run fnv [OpInsert [0xa0] [1]]) =
     Inr (NodeBranch [224, 37, 71, 85]
            [Some (NodeExtension [87, 144, 111, 124] ''a0'' None (Some [1])), None, None, None,
             None, None, None, None, None, None, None, None, None, None, None, None],
          None)
   \<and> toChildIndex CHR ''a'' = Inr 0
   \<and> hex_digit_index CHR ''a'' = Some 10"
  by code_simp

text \<open>
  C4 (Delete undoes Insert).  The claim: inserting S and T and then deleting the keys of
  T gives the root hash of a fresh trie built from S.  On the code, with S the keys
  0x1234 and 0x1256 and T the key 0x12, the Delete returns no error and the root hash
  stays the one of the three keys, which is not the root hash of the trie built from S.
\<close>

theorem delete_leaves_other_root_hash:
  "root_hash (run fnv (ops_12 @ [OpDelete [0x12]])) = Inr ([114, 103, 157, 35], None)
   \<and> root_hash (run fnv [OpInsert [0x12, 0x34] [2], OpInsert [0x12, 0x56] [3]])
       = Inr ([232, 29, 125, 235], None)"
  by code_simp

text \<open>
  C5 (shape after any run).  The claim: after any run of successful operations every
  Branch below the root has at least two occupied slots.  On the code, inserting 0x10
  and then 0x1a returns no error and leaves, below the Extension with key 1, a Branch
  whose only child is the Extension with key a.
\<close>

theorem branch_with_one_child_reachable:
  "outcome (run fnv [OpInsert [0x10] [1], OpInsert [0x1a] [2]]) =
     Inr (NodeBranch [239, 65, 134, 225]
            [None,
             Some (NodeExtension [93, 187, 77, 167] ''1''
                     (Some (Br (NodeBranch [222, 55, 177, 12]
                                  [Some (NodeExtension [226, 30, 160, 143] ''a'' None (Some [2])),
                                   None, None, None, None, None, None, None,
                                   None, None, None, None, None, None, None, None])))
                     None),
             None, None, None, None, None, None, None,
             None, None, None, None, None, None, None],
          None)
   \<and> Count (NodeBranch [222, 55, 177, 12]
               [Some (NodeExtension [226, 30, 160, 143] ''a'' None (Some [2])),
                None, None, None, None, None, None, None,
                None, None, None, None, None, None, None, None]) = 1"
  by code_simp

text \<open>
  C6 (hash pre-image).  \<open>Serialize\<close> of an Extension and of a Branch returns the
  encoding of the published field list (\<open>ext_preimage\<close>, \<open>br_preimage\<close>), with NC a byte
  blob in an Extension and a string in a Branch, whenever the \<^verbatim>\<open>Hash()\<close> calls on
  \<open>next\<close> and on the children return; otherwise it panics.  \<open>UpdateHash\<close> stores the
  digest of exactly these bytes.  A byte blob and a string with the same content encode
  differently.
\<close>

theorem Serialize_format:
  "ext_Serialize e = (if next_hashed e then Inr (emit (ext_preimage e)) else Inl PanicHashEmpty)
   \<and> br_Serialize b = (if children_hashed (br_children b) then Inr (emit (br_preimage b))
                       else Inl PanicHashEmpty)
   \<and> ext_UpdateHash d e =
       (if next_hashed e
        then (case d (emit (ext_preimage e)) of
                Inl err \<Rightarrow> Inr (e, Some (Wrap err ''updateHash failed''))
              | Inr res \<Rightarrow> Inr (NodeExtension res (ext_key e) (ext_next e) (ext_value e), None))
        else Inl PanicHashEmpty)
   \<and> br_UpdateHash d b =
       (if children_hashed (br_children b)
        then (case d (emit (br_preimage b)) of
                Inl err \<Rightarrow> Inr (b, Some (Wrap err ''UpdateHash() failed''))
              | Inr res \<Rightarrow> Inr (NodeBranch res (br_children b), None))
        else Inl PanicHashEmpty)
   \<and> Encode w (GobBytes (string_bytes ''NC'')) \<noteq> Encode w (GobString ''NC'')"
proof (intro conjI)
  show "ext_Serialize e =
          (if next_hashed e then Inr (emit (ext_preimage e)) else Inl PanicHashEmpty)"
    by (simp add: ext_Serialize_preimage ext_Serialize_panic)
  show "br_Serialize b =
          (if children_hashed (br_children b) then Inr (emit (br_preimage b))
           else Inl PanicHashEmpty)"
    by (simp add: br_Serialize_preimage br_Serialize_panic)
  show "Encode w (GobBytes (string_bytes ''NC'')) \<noteq> Encode w (GobString ''NC'')"
    by (rule Encode_kind)
qed (rule ext_UpdateHash_preimage br_UpdateHash_preimage)+

theorem Serialize_format_witness:
  "ext_Serialize key_leaf =
     Inr [4, 12, 0, 1, 69, 9, 12, 0, 6, 54, 98, 54, 53, 55, 57, 5, 10, 0, 2, 78, 67,
          4, 12, 0, 1, 86, 8, 10, 0, 5, 118, 97, 108, 117, 101]"
proof -
  have a: "next_hashed key_leaf"
    by code_simp
  have b: "emit (ext_preimage key_leaf) =
     [4, 12, 0, 1, 69, 9, 12, 0, 6, 54, 98, 54, 53, 55, 57, 5, 10, 0, 2, 78, 67,
      4, 12, 0, 1, 86, 8, 10, 0, 5, 118, 97, 108, 117, 101]"
    by code_simp
  show ?thesis
    using Serialize_format [of key_leaf key_root fnv "[]", THEN conjunct1] a b by simp
qed

text \<open>
  C7 (duplicate Insert).  For a key stored in the trie, Insert with any value returns the
  error "Key ... already exists" (with the part of the key that labels the leaf) and the
  trie it returns is the trie it was given.
\<close>

theorem Insert_duplicate:
  assumes "key \<noteq> []" and "br_stored (root mt) (EncodeToString key) ns"
  shows "Insert mt key v = Inr (mt, Some (ErrKeyExists (leaf_key ns)))"
  using assms insert_stored(2) [OF assms(2), of "hs mt" v]
  by (simp add: Insert_def Let_def)

theorem Insert_duplicate_witness:
  "Insert trie_12 [0x12, 0x34] [9] = Inr (trie_12, Some (ErrKeyExists ''34''))"
proof -
  have k: "EncodeToString [0x12, 0x34] = ''1234''"
    by code_simp
  have s1: "ext_stored leaf_34 ''34'' [Ext leaf_34]"
    using here [of leaf_34] by (simp add: leaf_34_def)
  have s2: "br_stored fork_12 ''34'' [Ext leaf_34, Br fork_12]"
    using in_slot [of "''34''" "CHR ''3''" 3 fork_12 leaf_34 "[Ext leaf_34]"] s1
    by (simp add: fork_12_def)
  have s3: "ext_stored ext_12 ''1234'' [Ext leaf_34, Br fork_12, Ext ext_12]"
    using below_br [of ext_12 fork_12 "''34''" "[Ext leaf_34, Br fork_12]"] s2
    by (simp add: ext_12_def)
  have s4: "br_stored root_12 ''1234'' [Ext leaf_34, Br fork_12, Ext ext_12, Br root_12]"
    using in_slot [of "''1234''" "CHR ''1''" 1 root_12 ext_12 "[Ext leaf_34, Br fork_12, Ext ext_12]"] s3
    by (simp add: root_12_def)
  have "Insert trie_12 [0x12, 0x34] [9] =
          Inr (trie_12, Some (ErrKeyExists
            (leaf_key [Ext leaf_34, Br fork_12, Ext ext_12, Br root_12])))"
    by (rule Insert_duplicate) (simp_all add: k s4 trie_12_def)
  then show ?thesis
    by (simp add: leaf_34_def)
qed

text \<open>
  C8 (Delete of an absent key).  The claim: Delete of a key that is not stored returns a
  not-found error.  On the code, with the key 0x00 stored, Delete of 0xa0 looks into
  slot 0, finds the Extension with key 00 and panics in \<open>commonPrefix\<close>: no error is
  returned.
\<close>

theorem delete_absent_key_panics:
  "outcome (run fnv [OpInsert [0x00] [1], OpDelete [0xa0]]) = Inl (PanicCommonPrefix ErrNoCommonPrefix)"
  by code_simp

text \<open>
  C9 (Merkle path of a stored key).  For a stored key whose path nodes are hashed,
  \<open>FindMerklePath\<close> returns, leaf first, one set per node on the lookup path (the hash
  of an Extension; for a Branch one entry per slot, 16 of them, nil where the slot is
  empty) and last the set of the root's hash.  For the trie that holds only "key" these
  are three sets.
\<close>

theorem FindMerklePath_stored:
  assumes "key \<noteq> []"
      and "br_stored (root mt) (EncodeToString key) ns"
      and "list_all path_node_hashed ns"
      and "br_hash (root mt) \<noteq> []"
  shows "FindMerklePath mt key =
           Inr (mt, Inr (map merkle_set ns @ [MerkleSet [br_hash (root mt)]]))
         \<and> map (\<lambda>n. length (hashes (merkle_set n))) ns = map merkle_set_size ns"
  using assms(1,4) merklePath_stored(2) [OF assms(2,3)] merkle_set_sizes [OF assms(3)]
  by (simp add: FindMerklePath_def Let_def Hash_def)

theorem FindMerklePath_stored_witness:
  "outcome (run fnv [OpInsert (string_bytes ''key'') (string_bytes ''value'')]) = Inr (root key_trie, None)
   \<and> FindMerklePath key_trie (string_bytes ''key'') =
       Inr (key_trie,
            Inr [MerkleSet [[172, 97, 0, 14]],
                 MerkleSet [[], [], [], [], [], [], [172, 97, 0, 14], [],
                            [], [], [], [], [], [], [], []],
                 MerkleSet [[250, 185, 121, 180]]])"
proof -
  have k: "EncodeToString (string_bytes ''key'') = ''6b6579''"
    by code_simp
  have ne: "string_bytes ''key'' \<noteq> []"
    by (simp add: string_bytes_def)
  have s1: "ext_stored key_leaf ''6b6579'' [Ext key_leaf]"
    using here [of key_leaf] by (simp add: key_leaf_def)
  have s2: "br_stored key_root ''6b6579'' [Ext key_leaf, Br key_root]"
    using in_slot [of "''6b6579''" "CHR ''6''" 6 key_root key_leaf "[Ext key_leaf]"] s1
    by (simp add: key_root_def)
  have h: "list_all path_node_hashed [Ext key_leaf, Br key_root]"
    by code_simp
  have "FindMerklePath key_trie (string_bytes ''key'') =
          Inr (key_trie, Inr (map merkle_set [Ext key_leaf, Br key_root]
                              @ [MerkleSet [br_hash (root key_trie)]]))"
    using FindMerklePath_stored [of "string_bytes ''key''" key_trie "[Ext key_leaf, Br key_root]"]
          ne s2 h k
    by (simp add: key_trie_def key_root_def)
  moreover have "map merkle_set [Ext key_leaf, Br key_root] @ [MerkleSet [br_hash (root key_trie)]]
     = [MerkleSet [[172, 97, 0, 14]],
        MerkleSet [[], [], [], [], [], [], [172, 97, 0, 14], [],
                   [], [], [], [], [], [], [], []],
        MerkleSet [[250, 185, 121, 180]]]"
    by (simp add: key_trie_def key_root_def key_leaf_def slot_hash_def)
  ultimately show ?thesis
    using key_outcome by (simp add: key_trie_def)
qed

text \<open>
  C10 (lookups write nothing).  Whenever \<open>FindMerklePath\<close> returns, with a path or with
  an error, the trie after the call is the trie before it.
\<close>

theorem FindMerklePath_frame:
  "FindMerklePath mt key = Inr (mt', r) \<Longrightarrow> mt' = mt"
  using merklePath_frame(2) [of "EncodeToString key" "root mt"]
  by (auto simp: FindMerklePath_def Let_def split: if_splits sum.splits prod.splits)

theorem FindMerklePath_frame_witness:
  "FindMerklePath trie_12 [0x12, 0x99] = Inr (trie_12, Inl (ErrNotFoundUnderBranch CHR ''9''))"
proof -
  have k: "EncodeToString [0x12, 0x99] = ''1299''"
    by code_simp
  have m: "merklePathInBranch ''1299'' root_12 = Inr (root_12, Inl (ErrNotFoundUnderBranch CHR ''9''))"
    by code_simp
  have f: "FindMerklePath trie_12 [0x12, 0x99] =
             Inr (trie_12\<lparr>root := root_12\<rparr>, Inl (ErrNotFoundUnderBranch CHR ''9''))"
    by (simp add: FindMerklePath_def k m trie_12_def)
  from FindMerklePath_frame [OF f] f show ?thesis
    by simp
qed

end
